theory Spec2Isabelle
  imports Complex_Main
begin

section \<open>Shared data model\<close>

text \<open>
  TypeScript \<open>number\<close> values reach this code from parsed JSON bodies and from
  \<open>Date.now()\<close>, so they are finite; they are modelled as reals. The only operations the
  code performs on them are the truthiness test of \<open>x || 0\<close> (false exactly for zero),
  \<open>Math.round\<close>, subtraction and comparison.
\<close>

type_synonym number = real

text \<open>
  Everything that can be thrown: \<open>new Error(message)\<close> and the transport layer's
  \<open>ApiServiceError(message, status, detail)\<close>. A rejected promise is \<open>Inl\<close> of one.
\<close>

datatype js_error = Error string | ApiServiceError string number string

text \<open>The operator \<open>a || d\<close> on an optional string and on an optional number.\<close>

definition or_string :: "string option \<Rightarrow> string \<Rightarrow> string" where
  "or_string a d = (case a of None \<Rightarrow> d | Some s \<Rightarrow> if s = [] then d else s)"

definition or_number :: "number option \<Rightarrow> number \<Rightarrow> number" where
  "or_number a d = (case a of None \<Rightarrow> d | Some x \<Rightarrow> if x = 0 then d else x)"

section \<open>The summaries API: \<open>generateWithPolling\<close>\<close>

datatype job_status = Pending | Processing | Completed | Failed

fun status_string :: "job_status \<Rightarrow> string" where
  "status_string Pending = ''pending''"
| "status_string Processing = ''processing''"
| "status_string Completed = ''completed''"
| "status_string Failed = ''failed''"

text \<open>The \<open>summary\<close> object of an \<open>AsyncJobResponse\<close>; optional fields are options.\<close>

record summary_payload =
  p_id :: number
  p_content :: string
  p_summary_type :: string
  p_summary_length :: string
  p_summary_style :: "string option"
  p_ai_provider :: "string option"
  p_ai_model :: "string option"
  p_generation_time_ms :: "number option"
  p_token_count :: "number option"
  p_compression_ratio :: "number option"
  p_created_at :: "string option"

record AsyncJobResponse =
  job_id :: "string option"
  status :: job_status
  progress :: number
  cached :: "bool option"
  summary :: "summary_payload option"
  error :: "string option"

text \<open>The \<open>Summary\<close> interface of the types module.\<close>

record Summary =
  sum_id :: number
  note_id :: number
  content :: string
  summary_type :: string
  summary_length :: string
  summary_style :: "string option"
  ai_provider :: string
  ai_model :: string
  generation_time_ms :: "number option"
  token_count :: "number option"
  compression_ratio :: "number option"
  created_at :: string

record GenerateSummaryRequest =
  line_count :: "number option option"
  req_summary_type :: "string option"
  req_summary_style :: "string option"
  force_regenerate :: "bool option"

definition empty_request :: GenerateSummaryRequest where
  "empty_request = \<lparr>line_count = None, req_summary_type = None,
     req_summary_style = None, force_regenerate = None\<rparr>"

text \<open>
  What one run does to the outside world, in order: calls of \<open>onProgress\<close>, the two
  network calls, and the timer of the polling loop.
\<close>

datatype action =
    Progress string string
  | PostGenerateAsync number GenerateSummaryRequest
  | GetJobStatus string
  | Sleep number

text \<open>
  An \<open>onProgress\<close> callback is caller code: given the calls it has received so far and the
  arguments of this call, it returns normally (\<open>None\<close>) or throws.
\<close>

type_synonym progress_callback = "(string \<times> string) list \<Rightarrow> string \<Rightarrow> string \<Rightarrow> js_error option"

text \<open>
  The collaborators of one run: the submit endpoint, the job-status endpoint (its answer
  to the \<open>k\<close>-th poll of a job), and the reading of \<open>new Date().toISOString()\<close> after
  \<open>k\<close> polls.
\<close>

record env =
  generateAsync :: "number \<Rightarrow> GenerateSummaryRequest \<Rightarrow> js_error + AsyncJobResponse"
  getJobStatus :: "string \<Rightarrow> nat \<Rightarrow> js_error + AsyncJobResponse"
  now_iso :: "nat \<Rightarrow> string"

definition POLL_INTERVAL :: number where
  "POLL_INTERVAL = 2000"

definition pollInterval :: number where
  "pollInterval = (if POLL_INTERVAL = 0 then 2000 else POLL_INTERVAL)"

definition maxAttempts :: nat where
  "maxAttempts = 180"

fun progress_calls :: "action list \<Rightarrow> (string \<times> string) list" where
  "progress_calls [] = []"
| "progress_calls (Progress s m # as) = (s, m) # progress_calls as"
| "progress_calls (a # as) = progress_calls as"

fun poll_count :: "action list \<Rightarrow> nat" where
  "poll_count [] = 0"
| "poll_count (GetJobStatus j # as) = Suc (poll_count as)"
| "poll_count (a # as) = poll_count as"

text \<open>
  \<open>if (onProgress) onProgress(s, m)\<close>: with no callback nothing happens; otherwise the
  call is recorded and an error thrown by the callback is returned.
\<close>

definition notify :: "progress_callback option \<Rightarrow> action list \<Rightarrow> string \<Rightarrow> string
    \<Rightarrow> action list \<times> js_error option" where
  "notify onProgress tr s m =
     (case onProgress of
        None \<Rightarrow> (tr, None)
      | Some cb \<Rightarrow> (tr @ [Progress s m], cb (progress_calls tr) s m))"

text \<open>
  String interpolation of \<open>Math.round(x)\<close>. \<open>Math.round\<close> rounds halves up; the result
  prints in decimal (the exponent notation of values from \<open>1e21\<close> on is outside the
  range of a percentage and is not modelled).
\<close>

definition Math_round :: "number \<Rightarrow> int" where
  "Math_round x = \<lfloor>x + 1 / 2\<rfloor>"

definition digit :: "nat \<Rightarrow> char" where
  "digit d = ''0123456789'' ! d"

fun decimal_digits :: "nat \<Rightarrow> string \<Rightarrow> string" where
  "decimal_digits n acc =
     (if n < 10 then digit n # acc
      else decimal_digits (n div 10) (digit (n mod 10) # acc))"

definition number_to_string :: "int \<Rightarrow> string" where
  "number_to_string i =
     (if 0 \<le> i then decimal_digits (nat i) [] else CHR ''-'' # decimal_digits (nat (- i)) [])"

definition progressMsg :: "AsyncJobResponse \<Rightarrow> string" where
  "progressMsg st =
     (if status st = Processing
      then ''Processing... ('' @ number_to_string (Math_round (progress st)) @ ''%)''
      else status_string (status st))"

text \<open>
  The object literal both return statements build; \<open>model_default\<close> is \<open>'cached'\<close> on
  the cache-hit path and \<open>'unknown'\<close> on the polling path, \<open>now\<close> is
  \<open>new Date().toISOString()\<close>.
\<close>

definition normalize :: "number \<Rightarrow> string \<Rightarrow> string \<Rightarrow> summary_payload \<Rightarrow> Summary" where
  "normalize noteId model_default now p =
     \<lparr>sum_id = p_id p, note_id = noteId, content = p_content p,
      summary_type = p_summary_type p, summary_length = p_summary_length p,
      summary_style = None,
      ai_provider = or_string (p_ai_provider p) ''unknown'',
      ai_model = or_string (p_ai_model p) model_default,
      generation_time_ms = Some (or_number (p_generation_time_ms p) 0),
      token_count = Some (or_number (p_token_count p) 0),
      compression_ratio = Some (or_number (p_compression_ratio p) 0),
      created_at = or_string (p_created_at p) now\<rparr>"

type_synonym run = "action list \<times> (js_error + Summary)"

text \<open>The \<open>for\<close> loop, from \<open>attempt\<close> on, with the actions performed so far.\<close>

function poll :: "env \<Rightarrow> progress_callback option \<Rightarrow> number \<Rightarrow> string \<Rightarrow> nat
    \<Rightarrow> action list \<Rightarrow> run" where
  "poll e onProgress noteId jobId attempt tr =
     (if attempt < maxAttempts then
        (let tr1 = tr @ [Sleep pollInterval, GetJobStatus jobId] in
         case getJobStatus e jobId attempt of
           Inl err \<Rightarrow> (tr1, Inl err)
         | Inr st \<Rightarrow>
             (case notify onProgress tr1 (status_string (status st)) (progressMsg st) of
                (tr2, Some err) \<Rightarrow> (tr2, Inl err)
              | (tr2, None) \<Rightarrow>
                  (case (if status st = Completed then summary st else None) of
                     Some p \<Rightarrow>
                       (tr2, Inr (normalize noteId ''unknown'' (now_iso e (Suc attempt)) p))
                   | None \<Rightarrow>
                       if status st = Failed
                       then (tr2, Inl (Error (or_string (error st) ''Summary generation failed'')))
                       else poll e onProgress noteId jobId (Suc attempt) tr2)))
      else (tr, Inl (Error ''Summary generation timed out'')))"
  by pat_completeness auto
termination
  by (relation "measure (\<lambda>(e, cb, n, j, attempt, tr). maxAttempts - attempt)") auto

declare poll.simps [simp del]

text \<open>\<open>options || {}\<close>, the body of the submit request.\<close>

definition or_request :: "GenerateSummaryRequest option \<Rightarrow> GenerateSummaryRequest" where
  "or_request options = (case options of None \<Rightarrow> empty_request | Some r \<Rightarrow> r)"

definition generateWithPolling :: "env \<Rightarrow> number \<Rightarrow> GenerateSummaryRequest option
    \<Rightarrow> progress_callback option \<Rightarrow> run" where
  "generateWithPolling e noteId options onProgress =
     (case notify onProgress [] ''pending'' ''Starting summary job...'' of
        (tr0, Some err) \<Rightarrow> (tr0, Inl err)
      | (tr0, None) \<Rightarrow>
          (let req = or_request options;
               tr1 = tr0 @ [PostGenerateAsync noteId req] in
           case generateAsync e noteId req of
             Inl err \<Rightarrow> (tr1, Inl err)
           | Inr job \<Rightarrow>
               (case (if cached job = Some True then summary job else None) of
                  Some p \<Rightarrow>
                    (case notify onProgress tr1 ''completed'' ''Using cached summary'' of
                       (tr2, Some err) \<Rightarrow> (tr2, Inl err)
                     | (tr2, None) \<Rightarrow> (tr2, Inr (normalize noteId ''cached'' (now_iso e 0) p)))
                | None \<Rightarrow>
                    (case job_id job of
                       None \<Rightarrow> (tr1, Inl (Error ''No job ID returned''))
                     | Some j \<Rightarrow>
                         if j = [] then (tr1, Inl (Error ''No job ID returned''))
                         else poll e onProgress noteId j 0 tr1))))"

text \<open>Hypotheses used about the collaborators of a run.\<close>

definition returns_normally :: "progress_callback option \<Rightarrow> bool" where
  "returns_normally onProgress = (\<forall>cb h s m. onProgress = Some cb \<longrightarrow> cb h s m = None)"

definition non_terminal :: "AsyncJobResponse \<Rightarrow> bool" where
  "non_terminal r =
     (status r = Pending \<or> status r = Processing \<or> (status r = Completed \<and> summary r = None))"

definition cache_hit :: "AsyncJobResponse \<Rightarrow> bool" where
  "cache_hit job = (cached job = Some True \<and> summary job \<noteq> None)"

definition hollow :: "AsyncJobResponse \<Rightarrow> bool" where
  "hollow r = (status r = Completed \<and> summary r = None)"

definition thrown_by :: "progress_callback \<Rightarrow> js_error \<Rightarrow> bool" where
  "thrown_by cb err = (\<exists>h s m. cb h s m = Some err)"

section \<open>Local storage\<close>

datatype NoteSourceType = Text | Pdf | Upload

record User =
  user_id :: number
  guest_id :: "string option"
  email :: "string option"
  display_name :: string
  is_guest :: bool
  user_created_at :: string

record CreateUserRequest =
  cu_display_name :: "string option"
  cu_email :: "string option"
  cu_is_guest :: "bool option"

record NoteListItem =
  n_id :: number
  title :: string
  source_type :: NoteSourceType
  char_count :: number
  n_created_at :: string
  summary_count :: number
  content_preview :: string

definition GUEST_ID :: string where "GUEST_ID = ''@ainotes/guest_id''"
definition USER_DATA :: string where "USER_DATA = ''@ainotes/user_data''"
definition NOTES_CACHE :: string where "NOTES_CACHE = ''@ainotes/notes_cache''"

text \<open>
  The values this module writes. \<open>JSON.parse (JSON.stringify v)\<close> gives \<open>v\<close> back on
  each of them, so an item of the store is kept as the value its text parses to.
\<close>

datatype stored =
    StoredString string
  | StoredUser User
  | StoredNotes "NoteListItem list" number

text \<open>
  \<open>AsyncStorage\<close>: the items, and the error every call rejects with when the backend is
  out of order.
\<close>

record AsyncStorage =
  items :: "string \<rightharpoonup> stored"
  fault :: "js_error option"

definition getItem :: "AsyncStorage \<Rightarrow> string \<Rightarrow> js_error + stored option" where
  "getItem st key = (case fault st of Some err \<Rightarrow> Inl err | None \<Rightarrow> Inr (items st key))"

definition setItem :: "AsyncStorage \<Rightarrow> string \<Rightarrow> stored \<Rightarrow> AsyncStorage \<times> (js_error + unit)" where
  "setItem st key v =
     (case fault st of
        Some err \<Rightarrow> (st, Inl err)
      | None \<Rightarrow> (st\<lparr>items := (items st)(key \<mapsto> v)\<rparr>, Inr ()))"

text \<open>\<open>storage.get\<close> and \<open>storage.set\<close>: the \<open>catch\<close> logs the error and goes on.\<close>

definition storage_get :: "AsyncStorage \<Rightarrow> string \<Rightarrow> js_error + stored option" where
  "storage_get st key = (case getItem st key of Inl err \<Rightarrow> Inr None | Inr v \<Rightarrow> Inr v)"

definition storage_set :: "AsyncStorage \<Rightarrow> string \<Rightarrow> stored \<Rightarrow> AsyncStorage \<times> (js_error + unit)" where
  "storage_set st key v =
     (case setItem st key v of (st', Inl err) \<Rightarrow> (st', Inr ()) | (st', Inr u) \<Rightarrow> (st', Inr u))"

text \<open>
  The typed accessors. Each key is written by its own setter only, so the item under a
  key has the setter's shape; any other item reads as \<open>null\<close> here.
\<close>

definition getGuestId :: "AsyncStorage \<Rightarrow> js_error + string option" where
  "getGuestId st =
     (case storage_get st GUEST_ID of
        Inl err \<Rightarrow> Inl err
      | Inr (Some (StoredString g)) \<Rightarrow> Inr (Some g)
      | Inr _ \<Rightarrow> Inr None)"

definition setGuestId :: "AsyncStorage \<Rightarrow> string \<Rightarrow> AsyncStorage \<times> (js_error + unit)" where
  "setGuestId st guestId = storage_set st GUEST_ID (StoredString guestId)"

definition getUser :: "AsyncStorage \<Rightarrow> js_error + User option" where
  "getUser st =
     (case storage_get st USER_DATA of
        Inl err \<Rightarrow> Inl err
      | Inr (Some (StoredUser u)) \<Rightarrow> Inr (Some u)
      | Inr _ \<Rightarrow> Inr None)"

definition setUser :: "AsyncStorage \<Rightarrow> User \<Rightarrow> AsyncStorage \<times> (js_error + unit)" where
  "setUser st u = storage_set st USER_DATA (StoredUser u)"

text \<open>
  \<open>notesCache\<close>; \<open>now\<close> is the reading of \<open>Date.now()\<close>, in milliseconds. An item
  without a numeric \<open>timestamp\<close> fails the comparison and reads as the empty list.
\<close>

definition getNotes :: "number \<Rightarrow> AsyncStorage \<Rightarrow> js_error + NoteListItem list" where
  "getNotes now st =
     (case storage_get st NOTES_CACHE of
        Inl err \<Rightarrow> Inl err
      | Inr (Some (StoredNotes notes timestamp)) \<Rightarrow>
          if now - timestamp < 5 * 60 * 1000 then Inr notes else Inr []
      | Inr _ \<Rightarrow> Inr [])"

definition setNotes :: "number \<Rightarrow> AsyncStorage \<Rightarrow> NoteListItem list
    \<Rightarrow> AsyncStorage \<times> (js_error + unit)" where
  "setNotes now st notes = storage_set st NOTES_CACHE (StoredNotes notes now)"

section \<open>The user hook: \<open>initializeUser\<close>\<close>

record UseUser =
  user :: "User option"
  isLoading :: bool
  hook_error :: "string option"

record users_api =
  users_create :: "CreateUserRequest \<Rightarrow> js_error + User"
  users_getByGuestId :: "string \<Rightarrow> js_error + User"

datatype request = PostUsers CreateUserRequest | GetUsersGuest string

type_synonym init_result = "UseUser \<times> AsyncStorage \<times> request list"

definition guest_request :: CreateUserRequest where
  "guest_request = \<lparr>cu_display_name = None, cu_email = None, cu_is_guest = Some True\<rparr>"

text \<open>The outer \<open>catch\<close> followed by \<open>finally\<close>.\<close>

definition init_failed :: "UseUser \<Rightarrow> AsyncStorage \<Rightarrow> request list \<Rightarrow> js_error \<Rightarrow> init_result" where
  "init_failed h st calls err =
     (h\<lparr>hook_error := Some (case err of ApiServiceError m s detail \<Rightarrow> detail
                                | Error m \<Rightarrow> ''Failed to initialize user''),
        isLoading := False\<rparr>, st, calls)"

text \<open>From \<open>api.users.create\<close> to the end of the \<open>try\<close> block.\<close>

definition create_guest :: "users_api \<Rightarrow> UseUser \<Rightarrow> AsyncStorage \<Rightarrow> request list \<Rightarrow> init_result" where
  "create_guest api h st calls =
     (let calls' = calls @ [PostUsers guest_request] in
      case users_create api guest_request of
        Inl err \<Rightarrow> init_failed h st calls' err
      | Inr newUser \<Rightarrow>
          (case (case guest_id newUser of
                   None \<Rightarrow> (st, Inr ())
                 | Some g \<Rightarrow> if g = [] then (st, Inr ()) else setGuestId st g) of
             (st1, Inl err) \<Rightarrow> init_failed h st1 calls' err
           | (st1, Inr _) \<Rightarrow>
               (case setUser st1 newUser of
                  (st2, Inl err) \<Rightarrow> init_failed h st2 calls' err
                | (st2, Inr _) \<Rightarrow> (h\<lparr>user := Some newUser, isLoading := False\<rparr>, st2, calls'))))"

definition initializeUser :: "users_api \<Rightarrow> UseUser \<Rightarrow> AsyncStorage \<Rightarrow> init_result" where
  "initializeUser api h0 st =
     (let h = h0\<lparr>isLoading := True, hook_error := None\<rparr> in
      case getUser st of
        Inl err \<Rightarrow> init_failed h st [] err
      | Inr (Some storedUser) \<Rightarrow> (h\<lparr>user := Some storedUser, isLoading := False\<rparr>, st, [])
      | Inr None \<Rightarrow>
          (case getGuestId st of
             Inl err \<Rightarrow> init_failed h st [] err
           | Inr None \<Rightarrow> create_guest api h st []
           | Inr (Some guestId) \<Rightarrow>
               if guestId = [] then create_guest api h st []
               else
                 (case users_getByGuestId api guestId of
                    Inl err \<Rightarrow> create_guest api h st [GetUsersGuest guestId]
                  | Inr existingUser \<Rightarrow>
                      (case setUser st existingUser of
                         (st1, Inl err) \<Rightarrow> create_guest api h st1 [GetUsersGuest guestId]
                       | (st1, Inr _) \<Rightarrow>
                           (h\<lparr>user := Some existingUser, isLoading := False\<rparr>, st1,
                            [GetUsersGuest guestId])))))"

section \<open>Concrete collaborators\<close>

text \<open>
  A mock service in the manner of a test double: it answers the submit call with \<open>job\<close>
  and the \<open>k\<close>-th poll with \<open>polls k\<close>; the clock always reads the same instant.
\<close>

definition mock_env :: "AsyncJobResponse \<Rightarrow> (nat \<Rightarrow> AsyncJobResponse) \<Rightarrow> env" where
  "mock_env job polls =
     \<lparr>generateAsync = (\<lambda>noteId req. Inr job),
      getJobStatus = (\<lambda>jobId k. Inr (polls k)),
      now_iso = (\<lambda>k. ''2025-01-01T00:00:00.000Z'')\<rparr>"

definition bare_payload :: summary_payload where
  "bare_payload =
     \<lparr>p_id = 11, p_content = ''A summary.'', p_summary_type = ''summary'',
      p_summary_length = ''auto'', p_summary_style = None, p_ai_provider = None,
      p_ai_model = None, p_generation_time_ms = None, p_token_count = None,
      p_compression_ratio = None, p_created_at = None\<rparr>"

definition response :: "job_status \<Rightarrow> number \<Rightarrow> summary_payload option \<Rightarrow> string option
    \<Rightarrow> AsyncJobResponse" where
  "response s pr sm er =
     \<lparr>job_id = Some ''job-1'', status = s, progress = pr, cached = None,
      summary = sm, error = er\<rparr>"

definition queued_job :: AsyncJobResponse where
  "queued_job = response Pending 0 None None"

definition cached_job :: AsyncJobResponse where
  "cached_job =
     \<lparr>job_id = None, status = Completed, progress = 100, cached = Some True,
      summary = Some bare_payload, error = None\<rparr>"

definition anonymous_job :: AsyncJobResponse where
  "anonymous_job =
     \<lparr>job_id = None, status = Pending, progress = 0, cached = Some False,
      summary = None, error = None\<rparr>"

definition four_polls :: "nat \<Rightarrow> AsyncJobResponse" where
  "four_polls k =
     (if k = 0 then response Pending 0 None None
      else if k = 1 then response Processing 30 None None
      else if k = 2 then response Processing 70 None None
      else response Completed 100 (Some bare_payload) None)"

definition quiet_callback :: progress_callback where
  "quiet_callback = (\<lambda>h s m. None)"

definition throwing_callback :: progress_callback where
  "throwing_callback = (\<lambda>h s m. Some (Error ''observer crashed''))"

definition guest_user :: User where
  "guest_user =
     \<lparr>user_id = 1, guest_id = Some ''g-new'', email = None, display_name = ''Guest'',
      is_guest = True, user_created_at = ''2025-01-01T00:00:00Z''\<rparr>"

definition mock_users :: users_api where
  "mock_users =
     \<lparr>users_create = (\<lambda>req. Inr guest_user),
      users_getByGuestId = (\<lambda>g. Inl (ApiServiceError ''API Error: User not found'' 404 ''User not found''))\<rparr>"

definition fresh_hook :: UseUser where
  "fresh_hook = \<lparr>user = None, isLoading = True, hook_error = None\<rparr>"

definition empty_storage :: AsyncStorage where
  "empty_storage = \<lparr>items = Map.empty, fault = None\<rparr>"

definition stale_token_storage :: AsyncStorage where
  "stale_token_storage = \<lparr>items = [GUEST_ID \<mapsto> StoredString ''g-old''], fault = None\<rparr>"

definition sample_note :: NoteListItem where
  "sample_note =
     \<lparr>n_id = 3, title = ''Notes'', source_type = Text, char_count = 120,
      n_created_at = ''2025-01-01T00:00:00Z'', summary_count = 0, content_preview = ''Lorem''\<rparr>"

section \<open>Properties of the polling loop\<close>

lemma poll_count_append: "poll_count (xs @ ys) = poll_count xs + poll_count ys"
  by (induction xs rule: poll_count.induct) simp_all

lemma notify_quiet:
  "returns_normally onProgress \<Longrightarrow>
   notify onProgress tr s m =
     (case onProgress of None \<Rightarrow> tr | Some cb \<Rightarrow> tr @ [Progress s m], None)"
  by (auto simp: notify_def returns_normally_def split: option.splits)

lemma poll_count_notify: "poll_count (fst (notify onProgress tr s m)) = poll_count tr"
  by (simp add: notify_def poll_count_append split: option.splits)

lemma returns_normally_quiet: "returns_normally (Some quiet_callback)"
  by (simp add: returns_normally_def quiet_callback_def)

text \<open>One iteration of the loop, for each kind of answer.\<close>

lemma poll_non_terminal_step:
  assumes "attempt < maxAttempts" "getJobStatus e j attempt = Inr r" "non_terminal r"
    "returns_normally onProgress"
  shows "poll e onProgress n j attempt tr =
         poll e onProgress n j (Suc attempt)
           (fst (notify onProgress (tr @ [Sleep pollInterval, GetJobStatus j])
              (status_string (status r)) (progressMsg r)))"
  using assms
  by (subst poll.simps) (auto simp: notify_quiet non_terminal_def split: option.splits)

lemma poll_completed_step:
  assumes "attempt < maxAttempts" "getJobStatus e j attempt = Inr r"
    "status r = Completed" "summary r = Some p" "returns_normally onProgress"
  shows "poll e onProgress n j attempt tr =
         (fst (notify onProgress (tr @ [Sleep pollInterval, GetJobStatus j])
              ''completed'' ''completed''),
          Inr (normalize n ''unknown'' (now_iso e (Suc attempt)) p))"
  using assms
  by (subst poll.simps) (auto simp: notify_quiet progressMsg_def split: option.splits)

lemma poll_failed_step:
  assumes "attempt < maxAttempts" "getJobStatus e j attempt = Inr r"
    "status r = Failed" "returns_normally onProgress"
  shows "poll e onProgress n j attempt tr =
         (fst (notify onProgress (tr @ [Sleep pollInterval, GetJobStatus j])
              ''failed'' ''failed''),
          Inl (Error (or_string (error r) ''Summary generation failed'')))"
  using assms
  by (subst poll.simps) (auto simp: notify_quiet progressMsg_def split: option.splits)

text \<open>
  When every remaining answer is non-terminal the loop runs to the bound: it ends in the
  time-out error and has polled once per remaining attempt.
\<close>

lemma poll_times_out:
  assumes "returns_normally onProgress"
    "\<forall>k<maxAttempts. \<exists>r. getJobStatus e j k = Inr r \<and> non_terminal r"
  shows "attempt \<le> maxAttempts \<Longrightarrow>
     snd (poll e onProgress n j attempt tr) = Inl (Error ''Summary generation timed out'') \<and>
     poll_count (fst (poll e onProgress n j attempt tr)) = poll_count tr + (maxAttempts - attempt)"
proof (induction "maxAttempts - attempt" arbitrary: attempt tr)
  case 0
  then have "\<not> attempt < maxAttempts" by simp
  then show ?case by (subst poll.simps, subst (2) poll.simps) simp
next
  case (Suc d)
  then have lt: "attempt < maxAttempts" by simp
  with assms(2) obtain r where r: "getJobStatus e j attempt = Inr r" "non_terminal r" by blast
  have d: "d = maxAttempts - Suc attempt" using Suc.hyps(2) by simp
  have le: "Suc attempt \<le> maxAttempts" using lt by simp
  show ?case
    using Suc.hyps(1)[OF d le] Suc.hyps(2)
    by (simp add: poll_non_terminal_step[OF lt r assms(1)] poll_count_notify poll_count_append)
qed

lemma generateWithPolling_enters_poll:
  assumes "returns_normally onProgress"
    and "generateAsync e noteId (or_request options) = Inr job"
    and "\<not> cache_hit job" and "job_id job = Some j" and "j \<noteq> []"
  shows "generateWithPolling e noteId options onProgress =
         poll e onProgress noteId j 0
           (fst (notify onProgress [] ''pending'' ''Starting summary job...'')
              @ [PostGenerateAsync noteId (or_request options)])"
  using assms
  by (cases onProgress; cases "summary job")
     (auto simp: generateWithPolling_def notify_quiet cache_hit_def)

text \<open>
  Claim C1. When the submit call is answered with \<open>cached = true\<close> and a summary, and the
  progress callback (if any) returns normally, the run resolves with the normalised
  summary, the job-status endpoint is never called, and the result's \<open>ai_model\<close> is
  \<open>'cached'\<close> when the answer leaves the field out.
\<close>

theorem cache_hit_short_circuit:
  assumes "returns_normally onProgress"
    and "generateAsync e noteId (or_request options) = Inr job"
    and "cached job = Some True" and "summary job = Some p"
  shows "\<exists>tr s. generateWithPolling e noteId options onProgress = (tr, Inr s)
           \<and> poll_count tr = 0
           \<and> s = normalize noteId ''cached'' (now_iso e 0) p
           \<and> (p_ai_model p = None \<longrightarrow> ai_model s = ''cached'')"
  using assms
  by (cases onProgress)
     (simp_all add: generateWithPolling_def notify_quiet normalize_def or_string_def)

theorem cache_hit_short_circuit_witness:
  "generateWithPolling (mock_env cached_job four_polls) 5 None (Some quiet_callback) =
     ([Progress ''pending'' ''Starting summary job...'', PostGenerateAsync 5 empty_request,
       Progress ''completed'' ''Using cached summary''],
      Inr (normalize 5 ''cached'' ''2025-01-01T00:00:00.000Z'' bare_payload))
   \<and> ai_model (normalize 5 ''cached'' ''2025-01-01T00:00:00.000Z'' bare_payload) = ''cached''"
  using cache_hit_short_circuit [of "Some quiet_callback" "mock_env cached_job four_polls" 5 None
      cached_job bare_payload]
  by (simp add: returns_normally_quiet mock_env_def cached_job_def generateWithPolling_def
      notify_def quiet_callback_def or_request_def normalize_def or_string_def bare_payload_def)

text \<open>
  Claim C3. When the job was submitted and every one of its job-status answers is
  non-terminal (\<open>pending\<close>, \<open>processing\<close>, or \<open>completed\<close> without a summary), the run
  ends in the failure \<open>Summary generation timed out\<close>, and it has called the job-status
  endpoint exactly 180 times. (The loop is a total function, so the run terminates.)
\<close>

theorem timeout_after_180_polls:
  assumes "returns_normally onProgress"
    and "generateAsync e noteId (or_request options) = Inr job"
    and "\<not> cache_hit job" and "job_id job = Some j" and "j \<noteq> []"
    and "\<forall>k<maxAttempts. \<exists>r. getJobStatus e j k = Inr r \<and> non_terminal r"
  shows "snd (generateWithPolling e noteId options onProgress)
           = Inl (Error ''Summary generation timed out'')
         \<and> poll_count (fst (generateWithPolling e noteId options onProgress)) = 180"
  using poll_times_out[OF assms(1) assms(6), of 0 noteId]
  by (simp add: generateWithPolling_enters_poll[OF assms(1-5)] poll_count_notify
      poll_count_append maxAttempts_def)

theorem timeout_after_180_polls_witness:
  "snd (generateWithPolling (mock_env queued_job (\<lambda>k. response Processing 50 None None)) 5 None
          (Some quiet_callback))
     = Inl (Error ''Summary generation timed out'')
   \<and> poll_count (fst (generateWithPolling
        (mock_env queued_job (\<lambda>k. response Processing 50 None None)) 5 None
        (Some quiet_callback))) = 180"
  using timeout_after_180_polls [of "Some quiet_callback"
      "mock_env queued_job (\<lambda>k. response Processing 50 None None)" 5 None queued_job "''job-1''"]
  by (simp add: returns_normally_quiet mock_env_def queued_job_def response_def cache_hit_def
      non_terminal_def)

text \<open>
  Claim C6. When the answer to the submit call carries no job identifier (\<open>null\<close>, or the
  empty string, which the test \<open>!job.job_id\<close> treats alike) and is not a cache hit, the
  run fails at once with \<open>No job ID returned\<close>: nothing follows the submit call, so there
  is no poll, no timer and no retry.
\<close>

theorem no_job_id_fails_immediately:
  assumes "\<forall>cb. onProgress = Some cb \<longrightarrow> cb [] ''pending'' ''Starting summary job...'' = None"
    and "generateAsync e noteId (or_request options) = Inr job"
    and "\<not> cache_hit job"
    and "job_id job = None \<or> job_id job = Some []"
  shows "generateWithPolling e noteId options onProgress =
           (fst (notify onProgress [] ''pending'' ''Starting summary job...'')
              @ [PostGenerateAsync noteId (or_request options)],
            Inl (Error ''No job ID returned''))
         \<and> poll_count (fst (generateWithPolling e noteId options onProgress)) = 0"
  using assms
  by (cases onProgress; cases "summary job")
     (auto simp: generateWithPolling_def notify_def cache_hit_def)

theorem no_job_id_fails_immediately_witness:
  "generateWithPolling (mock_env anonymous_job four_polls) 5 None (Some quiet_callback) =
     ([Progress ''pending'' ''Starting summary job...'', PostGenerateAsync 5 empty_request],
      Inl (Error ''No job ID returned''))"
  using no_job_id_fails_immediately [of "Some quiet_callback"
      "mock_env anonymous_job four_polls" 5 None anonymous_job]
  by (simp add: quiet_callback_def mock_env_def anonymous_job_def cache_hit_def notify_def
      or_request_def)

text \<open>The loop passes over a prefix of non-terminal answers, polling once for each.\<close>

lemma poll_skips:
  assumes "returns_normally onProgress"
    and "\<forall>i<k. \<exists>r. getJobStatus e j i = Inr r \<and> non_terminal r"
    and "k \<le> maxAttempts"
  shows "\<exists>tr'. poll e onProgress n j 0 tr = poll e onProgress n j k tr'
           \<and> poll_count tr' = poll_count tr + k"
  using assms(2,3)
proof (induction k)
  case 0
  have "poll e onProgress n j 0 tr = poll e onProgress n j 0 tr \<and> poll_count tr = poll_count tr + 0"
    by simp
  then show ?case by blast
next
  case (Suc k)
  then obtain tr' where tr': "poll e onProgress n j 0 tr = poll e onProgress n j k tr'"
      "poll_count tr' = poll_count tr + k" by auto
  from Suc.prems obtain r where r: "getJobStatus e j k = Inr r" "non_terminal r" by blast
  have lt: "k < maxAttempts" using Suc.prems by simp
  show ?case
    using tr' poll_non_terminal_step[OF lt r assms(1), of n tr']
    by (auto simp: poll_count_notify poll_count_append)
qed

text \<open>
  Claim C4, amended. When a job-status answer has \<open>status = failed\<close> (the answers before
  it being non-terminal), the run fails at that poll, without polling again: with the
  service's error message when that message is a non-empty string, and with
  \<open>Summary generation failed\<close> when the \<open>error\<close> field is absent or is the empty string.
\<close>

theorem failed_status_fails_with_message:
  assumes "returns_normally onProgress"
    and "generateAsync e noteId (or_request options) = Inr job"
    and "\<not> cache_hit job" and "job_id job = Some j" and "j \<noteq> []"
    and "k < maxAttempts"
    and "\<forall>i<k. \<exists>r. getJobStatus e j i = Inr r \<and> non_terminal r"
    and "getJobStatus e j k = Inr r" and "status r = Failed"
  shows "snd (generateWithPolling e noteId options onProgress) =
           Inl (Error (case error r of
                         None \<Rightarrow> ''Summary generation failed''
                       | Some m \<Rightarrow> if m = [] then ''Summary generation failed'' else m))
         \<and> poll_count (fst (generateWithPolling e noteId options onProgress)) = Suc k"
proof -
  let ?tr0 = "fst (notify onProgress [] ''pending'' ''Starting summary job...'')
              @ [PostGenerateAsync noteId (or_request options)]"
  have le: "k \<le> maxAttempts" using assms(6) by simp
  obtain tr' where tr': "poll e onProgress noteId j 0 ?tr0 = poll e onProgress noteId j k tr'"
      "poll_count tr' = poll_count ?tr0 + k"
    using poll_skips[OF assms(1) assms(7) le, of noteId ?tr0] by blast
  show ?thesis
    by (simp add: generateWithPolling_enters_poll[OF assms(1-5)] tr'
        poll_failed_step[OF assms(6) assms(8) assms(9) assms(1)]
        poll_count_notify poll_count_append or_string_def)
qed

theorem failed_status_fails_with_message_witness:
  "snd (generateWithPolling (mock_env queued_job (\<lambda>k. response Failed 0 None (Some ''boom'')))
          5 None (Some quiet_callback)) = Inl (Error ''boom'')
   \<and> snd (generateWithPolling (mock_env queued_job (\<lambda>k. response Failed 0 None None))
          5 None (Some quiet_callback)) = Inl (Error ''Summary generation failed'')"
  using failed_status_fails_with_message [of "Some quiet_callback"
      "mock_env queued_job (\<lambda>k. response Failed 0 None (Some ''boom''))" 5 None queued_job
      "''job-1''" 0 "response Failed 0 None (Some ''boom'')"]
    failed_status_fails_with_message [of "Some quiet_callback"
      "mock_env queued_job (\<lambda>k. response Failed 0 None None)" 5 None queued_job
      "''job-1''" 0 "response Failed 0 None None"]
  by (simp add: returns_normally_quiet mock_env_def queued_job_def response_def cache_hit_def
      maxAttempts_def)

text \<open>
  An empty error message is not passed on: \<open>status.error || '...'\<close> replaces it by the
  generic message.
\<close>

theorem failed_status_empty_message_counterexample:
  "snd (generateWithPolling (mock_env queued_job (\<lambda>k. response Failed 0 None (Some '''')))
          5 None None) = Inl (Error ''Summary generation failed'')
   \<and> snd (generateWithPolling (mock_env queued_job (\<lambda>k. response Failed 0 None (Some '''')))
          5 None None) \<noteq> Inl (Error '''')"
  by (simp add: generateWithPolling_def notify_def mock_env_def queued_job_def response_def
      or_request_def poll.simps[of _ _ _ _ 0] maxAttempts_def progressMsg_def or_string_def)

text \<open>
  Claim C10. An answer \<open>completed\<close> without a summary neither resolves nor fails the run:
  the loop reports it and goes on to the next attempt. A job whose answers are all of this
  kind ends in \<open>Summary generation timed out\<close> after 180 polls.
\<close>

theorem completed_without_result_keeps_polling:
  assumes "returns_normally onProgress"
  shows "(\<forall>k r tr. k < maxAttempts \<and> getJobStatus e j k = Inr r \<and> hollow r \<longrightarrow>
            poll e onProgress noteId j k tr =
            poll e onProgress noteId j (Suc k)
              (fst (notify onProgress (tr @ [Sleep pollInterval, GetJobStatus j])
                 ''completed'' ''completed'')))
         \<and> (generateAsync e noteId (or_request options) = Inr job \<and> \<not> cache_hit job
              \<and> job_id job = Some j \<and> j \<noteq> []
              \<and> (\<forall>k<maxAttempts. \<exists>r. getJobStatus e j k = Inr r \<and> hollow r) \<longrightarrow>
            snd (generateWithPolling e noteId options onProgress)
              = Inl (Error ''Summary generation timed out'')
            \<and> poll_count (fst (generateWithPolling e noteId options onProgress)) = 180)"
proof (intro conjI allI impI)
  fix k r tr
  assume a: "k < maxAttempts \<and> getJobStatus e j k = Inr r \<and> hollow r"
  then have nt: "non_terminal r" by (simp add: hollow_def non_terminal_def)
  from a have msg: "status_string (status r) = ''completed''" "progressMsg r = ''completed''"
    by (simp_all add: hollow_def progressMsg_def)
  show "poll e onProgress noteId j k tr =
        poll e onProgress noteId j (Suc k)
          (fst (notify onProgress (tr @ [Sleep pollInterval, GetJobStatus j])
             ''completed'' ''completed''))"
    using poll_non_terminal_step[of k e j r onProgress noteId tr] a nt assms
    by (simp add: msg)
next
  assume a: "generateAsync e noteId (or_request options) = Inr job \<and> \<not> cache_hit job
              \<and> job_id job = Some j \<and> j \<noteq> []
              \<and> (\<forall>k<maxAttempts. \<exists>r. getJobStatus e j k = Inr r \<and> hollow r)"
  then have nt: "\<forall>k<maxAttempts. \<exists>r. getJobStatus e j k = Inr r \<and> non_terminal r"
    by (auto simp: hollow_def non_terminal_def)
  have enter: "generateWithPolling e noteId options onProgress =
         poll e onProgress noteId j 0
           (fst (notify onProgress [] ''pending'' ''Starting summary job...'')
              @ [PostGenerateAsync noteId (or_request options)])"
    using generateWithPolling_enters_poll[of onProgress e noteId options job j] a assms by simp
  show "snd (generateWithPolling e noteId options onProgress)
              = Inl (Error ''Summary generation timed out'')"
    using poll_times_out[OF assms nt, of 0 noteId] by (simp add: enter)
  show "poll_count (fst (generateWithPolling e noteId options onProgress)) = 180"
    using poll_times_out[OF assms nt, of 0 noteId]
    by (simp add: enter poll_count_notify poll_count_append maxAttempts_def)
qed

theorem completed_without_result_keeps_polling_witness:
  "poll (mock_env queued_job (\<lambda>k. response Completed 100 None None)) (Some quiet_callback)
       5 ''job-1'' 0 [] =
   poll (mock_env queued_job (\<lambda>k. response Completed 100 None None)) (Some quiet_callback)
       5 ''job-1'' 1 [Sleep 2000, GetJobStatus ''job-1'', Progress ''completed'' ''completed'']
   \<and> snd (generateWithPolling (mock_env queued_job (\<lambda>k. response Completed 100 None None))
          5 None (Some quiet_callback)) = Inl (Error ''Summary generation timed out'')
   \<and> poll_count (fst (generateWithPolling
          (mock_env queued_job (\<lambda>k. response Completed 100 None None))
          5 None (Some quiet_callback))) = 180"
proof -
  let ?e = "mock_env queued_job (\<lambda>k. response Completed 100 None None)"
  note t = completed_without_result_keeps_polling [OF returns_normally_quiet,
      of ?e "''job-1''" 5 None queued_job]
  have step: "poll ?e (Some quiet_callback) 5 ''job-1'' 0 [] =
      poll ?e (Some quiet_callback) 5 ''job-1'' 1
        [Sleep 2000, GetJobStatus ''job-1'', Progress ''completed'' ''completed'']"
    using t [THEN conjunct1, rule_format, of 0 "response Completed 100 None None" "[]"]
    by (simp add: mock_env_def response_def hollow_def maxAttempts_def
        notify_quiet [OF returns_normally_quiet] pollInterval_def POLL_INTERVAL_def)
  have run: "snd (generateWithPolling ?e 5 None (Some quiet_callback))
        = Inl (Error ''Summary generation timed out'')
      \<and> poll_count (fst (generateWithPolling ?e 5 None (Some quiet_callback))) = 180"
    using t [THEN conjunct2]
    by (simp add: mock_env_def queued_job_def response_def cache_hit_def hollow_def)
  from step run show ?thesis by simp
qed

section \<open>The order of progress events\<close>

lemma normalize_absent_fields:
  "(p_ai_provider p = None \<longrightarrow> ai_provider (normalize n d now p) = ''unknown'')
   \<and> (p_ai_model p = None \<longrightarrow> ai_model (normalize n d now p) = d)
   \<and> (p_generation_time_ms p = None \<longrightarrow> generation_time_ms (normalize n d now p) = Some 0)
   \<and> (p_token_count p = None \<longrightarrow> token_count (normalize n d now p) = Some 0)
   \<and> (p_compression_ratio p = None \<longrightarrow> compression_ratio (normalize n d now p) = Some 0)
   \<and> (p_created_at p = None \<longrightarrow> created_at (normalize n d now p) = now)"
  by (simp add: normalize_def or_string_def or_number_def)

lemma four_answers_run:
  assumes "returns_normally (Some cb)"
    and "generateAsync e noteId (or_request options) = Inr job"
    and "\<not> cache_hit job" and "job_id job = Some j" and "j \<noteq> []"
    and "getJobStatus e j 0 = Inr r0" and "status r0 = Pending"
    and "getJobStatus e j 1 = Inr r1" and "status r1 = Processing" and "progress r1 = 30"
    and "getJobStatus e j 2 = Inr r2" and "status r2 = Processing" and "progress r2 = 70"
    and "getJobStatus e j 3 = Inr r3" and "status r3 = Completed" and "summary r3 = Some p"
  shows "generateWithPolling e noteId options (Some cb) =
    ([Progress ''pending'' ''Starting summary job...'',
      PostGenerateAsync noteId (or_request options),
      Sleep pollInterval, GetJobStatus j, Progress ''pending'' ''pending'',
      Sleep pollInterval, GetJobStatus j, Progress ''processing'' ''Processing... (30%)'',
      Sleep pollInterval, GetJobStatus j, Progress ''processing'' ''Processing... (70%)'',
      Sleep pollInterval, GetJobStatus j, Progress ''completed'' ''completed''],
     Inr (normalize noteId ''unknown'' (now_iso e 4) p))"
proof -
  note rn = assms(1)
  have g1: "getJobStatus e j (Suc 0) = Inr r1" using assms(8) by simp
  have g2: "getJobStatus e j (Suc (Suc 0)) = Inr r2" using assms(11) by (simp add: numeral_2_eq_2)
  have g3: "getJobStatus e j (Suc (Suc (Suc 0))) = Inr r3"
    using assms(14) by (simp add: numeral_3_eq_3)
  have n0: "non_terminal r0" and n1: "non_terminal r1" and n2: "non_terminal r2"
    using assms by (simp_all add: non_terminal_def)
  have m0: "progressMsg r0 = ''pending''"
    using assms(7) by (simp add: progressMsg_def)
  have m1: "progressMsg r1 = ''Processing... (30%)''"
    using assms(9,10) by (simp add: progressMsg_def number_to_string_def digit_def Math_round_def)
  have m2: "progressMsg r2 = ''Processing... (70%)''"
    using assms(12,13) by (simp add: progressMsg_def number_to_string_def digit_def Math_round_def)
  have lt: "0 < maxAttempts" "Suc 0 < maxAttempts" "Suc (Suc 0) < maxAttempts"
    "Suc (Suc (Suc 0)) < maxAttempts"
    by (simp_all add: maxAttempts_def)
  have four: "Suc (Suc (Suc (Suc 0))) = 4" by simp
  show ?thesis
    unfolding generateWithPolling_enters_poll[OF assms(1-5)]
      poll_non_terminal_step[OF lt(1) assms(6) n0 rn]
      poll_non_terminal_step[OF lt(2) g1 n1 rn]
      poll_non_terminal_step[OF lt(3) g2 n2 rn]
      poll_completed_step[OF lt(4) g3 assms(15) assms(16) rn]
      notify_quiet[OF rn] m0 m1 m2 four
    using assms(7,9,12) by simp
qed

text \<open>
  Claim C2, amended. For a submission that is not a cache hit, followed by the job-status
  answers pending, processing (30), processing (70), completed with a summary, the callback
  is invoked exactly five times: first with \<open>('pending', 'Starting summary job...')\<close>,
  before the submit call, then once after each of the four polls, with that poll's status,
  in that order. The run is exactly: progress event, submit call, and four rounds of timer,
  job-status call and progress event. It resolves with the normalisation of the final
  payload: id, content, type and length are the payload's, the note id is the argument,
  provider and model are the payload's or \<open>'unknown'\<close>, the numeric metrics are the
  payload's or \<open>0\<close>, and the timestamp is the payload's or the current time, the default
  standing in where the payload omits the field (or has it empty).
\<close>

theorem four_answers_five_progress_events:
  assumes "returns_normally (Some cb)"
    and "generateAsync e noteId (or_request options) = Inr job"
    and "\<not> cache_hit job" and "job_id job = Some j" and "j \<noteq> []"
    and "getJobStatus e j 0 = Inr r0" and "status r0 = Pending"
    and "getJobStatus e j 1 = Inr r1" and "status r1 = Processing" and "progress r1 = 30"
    and "getJobStatus e j 2 = Inr r2" and "status r2 = Processing" and "progress r2 = 70"
    and "getJobStatus e j 3 = Inr r3" and "status r3 = Completed" and "summary r3 = Some p"
  shows "generateWithPolling e noteId options (Some cb) =
           ([Progress ''pending'' ''Starting summary job...'',
             PostGenerateAsync noteId (or_request options),
             Sleep 2000, GetJobStatus j, Progress ''pending'' ''pending'',
             Sleep 2000, GetJobStatus j, Progress ''processing'' ''Processing... (30%)'',
             Sleep 2000, GetJobStatus j, Progress ''processing'' ''Processing... (70%)'',
             Sleep 2000, GetJobStatus j, Progress ''completed'' ''completed''],
            Inr \<lparr>sum_id = p_id p, note_id = noteId, content = p_content p,
                 summary_type = p_summary_type p, summary_length = p_summary_length p,
                 summary_style = None,
                 ai_provider = (case p_ai_provider p of None \<Rightarrow> ''unknown''
                                | Some a \<Rightarrow> if a = [] then ''unknown'' else a),
                 ai_model = (case p_ai_model p of None \<Rightarrow> ''unknown''
                             | Some a \<Rightarrow> if a = [] then ''unknown'' else a),
                 generation_time_ms = Some (case p_generation_time_ms p of None \<Rightarrow> 0
                                            | Some x \<Rightarrow> x),
                 token_count = Some (case p_token_count p of None \<Rightarrow> 0 | Some x \<Rightarrow> x),
                 compression_ratio = Some (case p_compression_ratio p of None \<Rightarrow> 0
                                           | Some x \<Rightarrow> x),
                 created_at = (case p_created_at p of None \<Rightarrow> now_iso e 4
                               | Some c \<Rightarrow> if c = [] then now_iso e 4 else c)\<rparr>)
         \<and> progress_calls (fst (generateWithPolling e noteId options (Some cb))) =
           [(''pending'', ''Starting summary job...''), (''pending'', ''pending''),
            (''processing'', ''Processing... (30%)''), (''processing'', ''Processing... (70%)''),
            (''completed'', ''completed'')]
         \<and> poll_count (fst (generateWithPolling e noteId options (Some cb))) = 4
         \<and> (\<exists>s. snd (generateWithPolling e noteId options (Some cb)) = Inr s
              \<and> s = normalize noteId ''unknown'' (now_iso e 4) p
              \<and> (p_ai_provider p = None \<longrightarrow> ai_provider s = ''unknown'')
              \<and> (p_ai_model p = None \<longrightarrow> ai_model s = ''unknown'')
              \<and> (p_generation_time_ms p = None \<longrightarrow> generation_time_ms s = Some 0)
              \<and> (p_token_count p = None \<longrightarrow> token_count s = Some 0)
              \<and> (p_compression_ratio p = None \<longrightarrow> compression_ratio s = Some 0)
              \<and> (p_created_at p = None \<longrightarrow> created_at s = now_iso e 4))"
proof -
  note run = four_answers_run[OF assms]
  have interval: "pollInterval = 2000"
    by (simp add: pollInterval_def POLL_INTERVAL_def)
  have result: "normalize noteId ''unknown'' (now_iso e 4) p =
      \<lparr>sum_id = p_id p, note_id = noteId, content = p_content p,
       summary_type = p_summary_type p, summary_length = p_summary_length p,
       summary_style = None,
       ai_provider = (case p_ai_provider p of None \<Rightarrow> ''unknown''
                      | Some a \<Rightarrow> if a = [] then ''unknown'' else a),
       ai_model = (case p_ai_model p of None \<Rightarrow> ''unknown''
                   | Some a \<Rightarrow> if a = [] then ''unknown'' else a),
       generation_time_ms = Some (case p_generation_time_ms p of None \<Rightarrow> 0 | Some x \<Rightarrow> x),
       token_count = Some (case p_token_count p of None \<Rightarrow> 0 | Some x \<Rightarrow> x),
       compression_ratio = Some (case p_compression_ratio p of None \<Rightarrow> 0 | Some x \<Rightarrow> x),
       created_at = (case p_created_at p of None \<Rightarrow> now_iso e 4
                     | Some c \<Rightarrow> if c = [] then now_iso e 4 else c)\<rparr>"
    by (simp add: normalize_def or_string_def or_number_def split: option.splits)
  show ?thesis
    using normalize_absent_fields[of p noteId "''unknown''" "now_iso e 4"]
    by (simp add: run interval result [symmetric])
qed

theorem four_answers_five_progress_events_witness:
  "generateWithPolling (mock_env queued_job four_polls) 5 None (Some quiet_callback) =
     ([Progress ''pending'' ''Starting summary job...'',
       PostGenerateAsync 5 empty_request,
       Sleep 2000, GetJobStatus ''job-1'', Progress ''pending'' ''pending'',
       Sleep 2000, GetJobStatus ''job-1'', Progress ''processing'' ''Processing... (30%)'',
       Sleep 2000, GetJobStatus ''job-1'', Progress ''processing'' ''Processing... (70%)'',
       Sleep 2000, GetJobStatus ''job-1'', Progress ''completed'' ''completed''],
      Inr \<lparr>sum_id = 11, note_id = 5, content = ''A summary.'', summary_type = ''summary'',
           summary_length = ''auto'', summary_style = None, ai_provider = ''unknown'',
           ai_model = ''unknown'', generation_time_ms = Some 0, token_count = Some 0,
           compression_ratio = Some 0, created_at = ''2025-01-01T00:00:00.000Z''\<rparr>)
   \<and> progress_calls (fst (generateWithPolling (mock_env queued_job four_polls) 5 None
      (Some quiet_callback))) =
     [(''pending'', ''Starting summary job...''), (''pending'', ''pending''),
      (''processing'', ''Processing... (30%)''), (''processing'', ''Processing... (70%)''),
      (''completed'', ''completed'')]"
  using four_answers_five_progress_events [of quiet_callback "mock_env queued_job four_polls"
      5 None queued_job "''job-1''" "four_polls 0" "four_polls 1" "four_polls 2" "four_polls 3"
      bare_payload]
  by (simp add: returns_normally_quiet mock_env_def queued_job_def four_polls_def response_def
      cache_hit_def bare_payload_def or_request_def)

text \<open>The same run, counted: five invocations, not four.\<close>

theorem four_answers_four_events_counterexample:
  "length (progress_calls (fst (generateWithPolling (mock_env queued_job four_polls) 5 None
      (Some quiet_callback)))) = 5
   \<and> length (progress_calls (fst (generateWithPolling (mock_env queued_job four_polls) 5 None
      (Some quiet_callback)))) \<noteq> 4"
  using four_answers_run [of quiet_callback "mock_env queued_job four_polls"
      5 None queued_job "''job-1''" "four_polls 0" "four_polls 1" "four_polls 2" "four_polls 3"
      bare_payload]
  by (simp add: returns_normally_quiet mock_env_def queued_job_def four_polls_def response_def
      cache_hit_def)


section \<open>Errors thrown by the progress callback\<close>

text \<open>
  With or without a callback the loop takes the same decisions, unless the callback throws:
  then the error leaves the loop as the run's failure.
\<close>

lemma poll_callback_outcome:
  "snd (poll e (Some cb) n j k tr) = snd (poll e None n j k tr')
   \<or> (\<exists>err. thrown_by cb err \<and> snd (poll e (Some cb) n j k tr) = Inl err)"
proof (induction "maxAttempts - k" arbitrary: k tr tr')
  case 0
  then have "\<not> k < maxAttempts" by simp
  then show ?case by (subst poll.simps, subst (2) poll.simps) simp
next
  case (Suc d)
  then have lt: "k < maxAttempts" by simp
  have d: "d = maxAttempts - Suc k" using Suc.hyps(2) by simp
  note IH = Suc.hyps(1)[OF d]
  show ?case
  proof (cases "getJobStatus e j k")
    case (Inl err)
    then show ?thesis using lt by (subst poll.simps, subst (2) poll.simps) simp
  next
    case (Inr st)
    let ?tr1 = "tr @ [Sleep pollInterval, GetJobStatus j]"
    show ?thesis
    proof (cases "cb (progress_calls ?tr1) (status_string (status st)) (progressMsg st)")
      case (Some err)
      then have "thrown_by cb err" unfolding thrown_by_def by blast
      moreover have "snd (poll e (Some cb) n j k tr) = Inl err"
        using lt Inr Some by (subst poll.simps) (simp add: notify_def)
      ultimately show ?thesis by blast
    next
      case None
      let ?tr2 = "?tr1 @ [Progress (status_string (status st)) (progressMsg st)]"
      let ?tr1' = "tr' @ [Sleep pollInterval, GetJobStatus j]"
      let ?x = "if status st = Completed then summary st else None"
      have L: "poll e (Some cb) n j k tr =
          (case ?x of
             Some p \<Rightarrow> (?tr2, Inr (normalize n ''unknown'' (now_iso e (Suc k)) p))
           | None \<Rightarrow>
               if status st = Failed
               then (?tr2, Inl (Error (or_string (error st) ''Summary generation failed'')))
               else poll e (Some cb) n j (Suc k) ?tr2)"
        using lt Inr None by (subst poll.simps) (simp add: notify_def Let_def)
      have R: "poll e None n j k tr' =
          (case ?x of
             Some p \<Rightarrow> (?tr1', Inr (normalize n ''unknown'' (now_iso e (Suc k)) p))
           | None \<Rightarrow>
               if status st = Failed
               then (?tr1', Inl (Error (or_string (error st) ''Summary generation failed'')))
               else poll e None n j (Suc k) ?tr1')"
        using lt Inr by (subst poll.simps) (simp add: notify_def Let_def)
      show ?thesis
      proof (cases ?x)
        case (Some p)
        then show ?thesis unfolding L R by simp
      next
        case none: None
        show ?thesis
        proof (cases "status st = Failed")
          case True
          then show ?thesis unfolding L R using none by simp
        next
          case False
          then show ?thesis unfolding L R using none IH[of ?tr2 ?tr1'] by simp
        qed
      qed
    qed
  qed
qed

text \<open>
  Claim C5, amended. A callback that returns normally on every invocation does not change
  the run: its outcome is the outcome of the run without a callback. An error thrown by the
  callback is not caught: a run with a callback ends either in that same outcome or in the
  failure the callback threw.
\<close>

theorem callback_errors_are_not_isolated:
  "(returns_normally (Some cb) \<longrightarrow>
      snd (generateWithPolling e noteId options (Some cb))
        = snd (generateWithPolling e noteId options None))
   \<and> (snd (generateWithPolling e noteId options (Some cb))
         = snd (generateWithPolling e noteId options None)
       \<or> (\<exists>err. thrown_by cb err
            \<and> snd (generateWithPolling e noteId options (Some cb)) = Inl err))"
proof -
  have main: "snd (generateWithPolling e noteId options (Some cb))
         = snd (generateWithPolling e noteId options None)
       \<or> (\<exists>err. thrown_by cb err
            \<and> snd (generateWithPolling e noteId options (Some cb)) = Inl err)"
  proof (cases "cb [] ''pending'' ''Starting summary job...''")
    case (Some err)
    then have "thrown_by cb err" unfolding thrown_by_def by blast
    moreover have "snd (generateWithPolling e noteId options (Some cb)) = Inl err"
      using Some by (simp add: generateWithPolling_def notify_def)
    ultimately show ?thesis by blast
  next
    case first: None
    show ?thesis
    proof (cases "generateAsync e noteId (or_request options)")
      case (Inl err)
      then show ?thesis using first by (simp add: generateWithPolling_def notify_def)
    next
      case (Inr job)
      let ?tr1 = "[Progress ''pending'' ''Starting summary job...'',
                   PostGenerateAsync noteId (or_request options)]"
      show ?thesis
      proof (cases "if cached job = Some True then summary job else None")
        case (Some p)
        show ?thesis
        proof (cases "cb (progress_calls ?tr1) ''completed'' ''Using cached summary''")
          case None
          then show ?thesis using first Inr Some
            by (simp add: generateWithPolling_def notify_def)
        next
          case (Some err)
          then have "thrown_by cb err" unfolding thrown_by_def by blast
          moreover have "snd (generateWithPolling e noteId options (Some cb)) = Inl err"
            using first Inr \<open>(if cached job = Some True then summary job else None) = Some p\<close> Some
            by (simp add: generateWithPolling_def notify_def)
          ultimately show ?thesis by blast
        qed
      next
        case None
        show ?thesis
        proof (cases "job_id job")
          case none: None
          then show ?thesis using first Inr None
            by (simp add: generateWithPolling_def notify_def)
        next
          case (Some j)
          show ?thesis
            using first Inr None Some
              poll_callback_outcome[of e cb noteId j 0 ?tr1
                "[PostGenerateAsync noteId (or_request options)]"]
            by (cases "j = []") (simp_all add: generateWithPolling_def notify_def Let_def)
        qed
      qed
    qed
  qed
  have "returns_normally (Some cb) \<Longrightarrow> \<not> thrown_by cb err" for err
    by (simp add: returns_normally_def thrown_by_def)
  with main show ?thesis by blast
qed

theorem callback_errors_are_not_isolated_witness:
  "snd (generateWithPolling (mock_env cached_job four_polls) 5 None (Some quiet_callback))
     = snd (generateWithPolling (mock_env cached_job four_polls) 5 None None)"
  using callback_errors_are_not_isolated [of quiet_callback "mock_env cached_job four_polls" 5 None]
  by (simp add: returns_normally_quiet)

text \<open>
  A callback that throws at its first invocation aborts the run before the submit call,
  where a quiet callback sees the cached summary returned.
\<close>

theorem throwing_callback_aborts_counterexample:
  "generateWithPolling (mock_env cached_job four_polls) 5 None (Some throwing_callback)
     = ([Progress ''pending'' ''Starting summary job...''], Inl (Error ''observer crashed''))
   \<and> snd (generateWithPolling (mock_env cached_job four_polls) 5 None (Some quiet_callback))
     = Inr (normalize 5 ''cached'' ''2025-01-01T00:00:00.000Z'' bare_payload)
   \<and> snd (generateWithPolling (mock_env cached_job four_polls) 5 None (Some throwing_callback))
     \<noteq> snd (generateWithPolling (mock_env cached_job four_polls) 5 None (Some quiet_callback))"
  by (simp add: generateWithPolling_def notify_def throwing_callback_def quiet_callback_def
      mock_env_def cached_job_def or_request_def)


section \<open>Properties of the storage layer\<close>

lemma storage_set_works:
  "fault st = None \<Longrightarrow> storage_set st key v = (st\<lparr>items := (items st)(key \<mapsto> v)\<rparr>, Inr ())"
  by (simp add: storage_set_def setItem_def)

lemma storage_get_works:
  "fault st = None \<Longrightarrow> storage_get st key = Inr (items st key)"
  by (simp add: storage_get_def getItem_def)

lemma storage_get_never_rejects: "\<exists>v. storage_get st key = Inr v"
  by (simp add: storage_get_def split: sum.splits)

text \<open>
  Claim C9. On a working store, \<open>setNotes\<close> followed by \<open>getNotes\<close> less than five minutes
  (300000 ms) after the stored timestamp returns exactly the stored items; from five
  minutes on it returns the empty list. \<open>getNotes\<close> never rejects, whatever the state of
  the store.
\<close>

theorem notes_cache_freshness:
  "(fault st = None \<and> later - written < 5 * 60 * 1000 \<longrightarrow>
      getNotes later (fst (setNotes written st notes)) = Inr notes)
   \<and> (fault st = None \<and> 5 * 60 * 1000 \<le> later - written \<longrightarrow>
      getNotes later (fst (setNotes written st notes)) = Inr [])
   \<and> (\<exists>xs. getNotes now any = Inr xs)"
proof (intro conjI impI)
  assume "fault st = None \<and> later - written < 5 * 60 * 1000"
  then show "getNotes later (fst (setNotes written st notes)) = Inr notes"
    by (simp add: setNotes_def getNotes_def storage_set_works storage_get_works)
next
  assume "fault st = None \<and> 5 * 60 * 1000 \<le> later - written"
  then show "getNotes later (fst (setNotes written st notes)) = Inr []"
    by (simp add: setNotes_def getNotes_def storage_set_works storage_get_works)
next
  obtain v where "storage_get any NOTES_CACHE = Inr v"
    using storage_get_never_rejects by blast
  then show "\<exists>xs. getNotes now any = Inr xs"
    by (simp add: getNotes_def split: option.splits stored.splits)
qed

theorem notes_cache_freshness_witness:
  "getNotes 299999 (fst (setNotes 0 empty_storage [sample_note])) = Inr [sample_note]
   \<and> getNotes 300000 (fst (setNotes 0 empty_storage [sample_note])) = Inr []
   \<and> (\<exists>xs. getNotes 0 (empty_storage\<lparr>fault := Some (Error ''disk'')\<rparr>) = Inr xs)"
  using notes_cache_freshness [of empty_storage 299999 0 "[sample_note]"]
    notes_cache_freshness [of empty_storage 300000 0 "[sample_note]" 0
      "empty_storage\<lparr>fault := Some (Error ''disk'')\<rparr>"]
  by (simp add: empty_storage_def)

section \<open>Properties of \<open>initializeUser\<close>\<close>

lemma getUser_stored:
  "fault st = None \<Longrightarrow> items st USER_DATA = Some (StoredUser u) \<Longrightarrow> getUser st = Inr (Some u)"
  by (simp add: getUser_def storage_get_works)

lemma getUser_absent:
  "fault st = None \<Longrightarrow> items st USER_DATA = None \<Longrightarrow> getUser st = Inr None"
  by (simp add: getUser_def storage_get_works)

lemma getGuestId_stored:
  "fault st = None \<Longrightarrow> items st GUEST_ID = Some (StoredString g) \<Longrightarrow> getGuestId st = Inr (Some g)"
  by (simp add: getGuestId_def storage_get_works)

lemma setUser_works:
  "fault st = None \<Longrightarrow> setUser st u = (st\<lparr>items := (items st)(USER_DATA \<mapsto> StoredUser u)\<rparr>, Inr ())"
  by (simp add: setUser_def storage_set_works)

lemma setGuestId_works:
  "fault st = None \<Longrightarrow>
   setGuestId st g = (st\<lparr>items := (items st)(GUEST_ID \<mapsto> StoredString g)\<rparr>, Inr ())"
  by (simp add: setGuestId_def storage_set_works)

lemma initializeUser_stored:
  assumes "fault st = None" "items st USER_DATA = Some (StoredUser u)"
  shows "initializeUser api h st =
           (h\<lparr>user := Some u, isLoading := False, hook_error := None\<rparr>, st, [])"
  using assms by (simp add: initializeUser_def getUser_stored)

text \<open>What a successful run of \<open>create_guest\<close> leaves behind.\<close>

lemma create_guest_cases:
  assumes "fault st = None"
  shows "(\<exists>err. users_create api guest_request = Inl err
            \<and> create_guest api h st calls = init_failed h st (calls @ [PostUsers guest_request]) err)
       \<or> (\<exists>newUser st'. users_create api guest_request = Inr newUser
            \<and> fault st' = None \<and> items st' USER_DATA = Some (StoredUser newUser)
            \<and> create_guest api h st calls =
                (h\<lparr>user := Some newUser, isLoading := False\<rparr>, st',
                 calls @ [PostUsers guest_request]))"
proof (cases "users_create api guest_request")
  case (Inl err)
  then show ?thesis by (simp add: create_guest_def)
next
  case (Inr newUser)
  then show ?thesis using assms
    by (cases "guest_id newUser")
       (auto simp: create_guest_def setUser_works setGuestId_works)
qed


lemma getUser_Some:
  "fault st = None \<Longrightarrow> getUser st = Inr (Some u) \<Longrightarrow> items st USER_DATA = Some (StoredUser u)"
  by (auto simp: getUser_def storage_get_works split: option.splits stored.splits)

lemma getUser_never_rejects: "\<exists>v. getUser st = Inr v"
  using storage_get_never_rejects[of st USER_DATA]
  by (auto simp: getUser_def split: option.splits stored.splits)

lemma getGuestId_never_rejects: "\<exists>v. getGuestId st = Inr v"
  using storage_get_never_rejects[of st GUEST_ID]
  by (auto simp: getGuestId_def split: option.splits stored.splits)

lemma create_guest_success:
  assumes "fault st = None" "create_guest api h st calls = (h1, st1, calls1)"
    "hook_error h = None" "hook_error h1 = None"
  shows "\<exists>u. user h1 = Some u \<and> isLoading h1 = False \<and> fault st1 = None
           \<and> items st1 USER_DATA = Some (StoredUser u)"
  using create_guest_cases[OF assms(1), of api h calls] assms(2-4)
  by (auto simp: init_failed_def)

lemma initializeUser_success:
  assumes "fault st = None" "initializeUser api h st = (h1, st1, calls1)" "hook_error h1 = None"
  shows "\<exists>u. user h1 = Some u \<and> isLoading h1 = False \<and> fault st1 = None
           \<and> items st1 USER_DATA = Some (StoredUser u)"
proof -
  let ?h = "h\<lparr>isLoading := True, hook_error := None\<rparr>"
  have hn: "hook_error ?h = None" by simp
  obtain ou where ou: "getUser st = Inr ou" using getUser_never_rejects by blast
  show ?thesis
  proof (cases ou)
    case (Some u)
    then show ?thesis
      using assms ou getUser_Some[OF assms(1), of u]
      by (auto simp: initializeUser_def)
  next
    case None
    obtain og where og: "getGuestId st = Inr og" using getGuestId_never_rejects by blast
    show ?thesis
    proof (cases "og = None \<or> og = Some []")
      case True
      then have "create_guest api ?h st [] = (h1, st1, calls1)"
        using assms(2) ou None og by (auto simp: initializeUser_def)
      from create_guest_success[OF assms(1) this hn assms(3)] show ?thesis .
    next
      case False
      then obtain g where g: "og = Some g" "g \<noteq> []" by auto
      show ?thesis
      proof (cases "users_getByGuestId api g")
        case (Inl err)
        then have "create_guest api ?h st [GetUsersGuest g] = (h1, st1, calls1)"
          using assms(2) ou None og g by (auto simp: initializeUser_def)
        from create_guest_success[OF assms(1) this hn assms(3)] show ?thesis .
      next
        case (Inr existingUser)
        then show ?thesis
          using assms ou None og g
          by (auto simp: initializeUser_def setUser_works)
      qed
    qed
  qed
qed

text \<open>
  Claim C7. On a working store that holds a persisted user, \<open>initializeUser\<close> sets that
  user and makes no network call. Hence, after a first call that ended without error, a
  second call finds the user the first one set: it leaves hook state and store as they
  are and makes no network call.
\<close>

theorem bootstrap_stability:
  "(fault st = None \<and> items st USER_DATA = Some (StoredUser u) \<longrightarrow>
      initializeUser api h st =
        (h\<lparr>user := Some u, isLoading := False, hook_error := None\<rparr>, st, []))
   \<and> (fault st = None \<and> initializeUser api h st = (h1, st1, calls1) \<and> hook_error h1 = None \<longrightarrow>
      (\<exists>u1. user h1 = Some u1 \<and> initializeUser api2 h1 st1 = (h1, st1, [])))"
proof (intro conjI impI)
  assume "fault st = None \<and> items st USER_DATA = Some (StoredUser u)"
  then show "initializeUser api h st =
      (h\<lparr>user := Some u, isLoading := False, hook_error := None\<rparr>, st, [])"
    by (simp add: initializeUser_stored)
next
  assume a: "fault st = None \<and> initializeUser api h st = (h1, st1, calls1) \<and> hook_error h1 = None"
  then obtain u1 where u1: "user h1 = Some u1" "isLoading h1 = False" "fault st1 = None"
      "items st1 USER_DATA = Some (StoredUser u1)"
    using initializeUser_success[of st api h h1 st1 calls1] by blast
  have "h1\<lparr>user := Some u1, isLoading := False, hook_error := None\<rparr> = h1"
    using u1 a by simp
  then have "initializeUser api2 h1 st1 = (h1, st1, [])"
    using initializeUser_stored[OF u1(3) u1(4), of api2 h1] by simp
  with u1(1) show "\<exists>u1. user h1 = Some u1 \<and> initializeUser api2 h1 st1 = (h1, st1, [])"
    by blast
qed

text \<open>
  Claim C8. With no persisted user, a persisted guest token and a failing lookup by that
  token, the lookup's error reaches nobody: \<open>initializeUser\<close> goes on to create a guest.
  When the creation succeeds, the new guest token (if the answer has one) and the new
  user are persisted, the user is set and no error is reported; when it fails, the error
  reported is the creation's.
\<close>

theorem bootstrap_fallback:
  assumes "fault st = None" and "items st USER_DATA = None"
    and "items st GUEST_ID = Some (StoredString g)" and "g \<noteq> []"
    and "users_getByGuestId api g = Inl lookup_err"
  shows "(\<forall>newUser. users_create api guest_request = Inr newUser \<longrightarrow>
            initializeUser api h st =
              (h\<lparr>user := Some newUser, isLoading := False, hook_error := None\<rparr>,
               st\<lparr>items :=
                    (if guest_id newUser = None \<or> guest_id newUser = Some [] then items st
                     else (items st)(GUEST_ID \<mapsto> StoredString (the (guest_id newUser))))
                    (USER_DATA \<mapsto> StoredUser newUser)\<rparr>,
               [GetUsersGuest g, PostUsers guest_request]))
       \<and> (\<forall>create_err. users_create api guest_request = Inl create_err \<longrightarrow>
            initializeUser api h st =
              init_failed (h\<lparr>isLoading := True, hook_error := None\<rparr>) st
                [GetUsersGuest g, PostUsers guest_request] create_err)"
  using assms
  by (auto simp: initializeUser_def getUser_absent getGuestId_stored create_guest_def
      setUser_works setGuestId_works)

lemma first_bootstrap:
  "initializeUser mock_users fresh_hook empty_storage =
     (\<lparr>user = Some guest_user, isLoading = False, hook_error = None\<rparr>,
      \<lparr>items = [GUEST_ID \<mapsto> StoredString ''g-new'', USER_DATA \<mapsto> StoredUser guest_user],
       fault = None\<rparr>,
      [PostUsers guest_request])"
  by (simp add: initializeUser_def getUser_def getGuestId_def storage_get_def getItem_def
      empty_storage_def fresh_hook_def create_guest_def mock_users_def guest_user_def
      setGuestId_def setUser_def storage_set_def setItem_def)

theorem bootstrap_stability_witness:
  "initializeUser mock_users fresh_hook empty_storage =
     (\<lparr>user = Some guest_user, isLoading = False, hook_error = None\<rparr>,
      \<lparr>items = [GUEST_ID \<mapsto> StoredString ''g-new'', USER_DATA \<mapsto> StoredUser guest_user],
       fault = None\<rparr>,
      [PostUsers guest_request])
   \<and> initializeUser mock_users
       \<lparr>user = Some guest_user, isLoading = False, hook_error = None\<rparr>
       \<lparr>items = [GUEST_ID \<mapsto> StoredString ''g-new'', USER_DATA \<mapsto> StoredUser guest_user],
        fault = None\<rparr>
     = (\<lparr>user = Some guest_user, isLoading = False, hook_error = None\<rparr>,
        \<lparr>items = [GUEST_ID \<mapsto> StoredString ''g-new'', USER_DATA \<mapsto> StoredUser guest_user],
         fault = None\<rparr>,
        [])"
proof -
  have second: "initializeUser mock_users
       \<lparr>user = Some guest_user, isLoading = False, hook_error = None\<rparr>
       \<lparr>items = [GUEST_ID \<mapsto> StoredString ''g-new'', USER_DATA \<mapsto> StoredUser guest_user],
        fault = None\<rparr>
     = (\<lparr>user = Some guest_user, isLoading = False, hook_error = None\<rparr>,
        \<lparr>items = [GUEST_ID \<mapsto> StoredString ''g-new'', USER_DATA \<mapsto> StoredUser guest_user],
         fault = None\<rparr>,
        [])"
    using bootstrap_stability [of empty_storage guest_user mock_users fresh_hook
        "\<lparr>user = Some guest_user, isLoading = False, hook_error = None\<rparr>"
        "\<lparr>items = [GUEST_ID \<mapsto> StoredString ''g-new'', USER_DATA \<mapsto> StoredUser guest_user],
          fault = None\<rparr>"
        "[PostUsers guest_request]" mock_users]
    by (simp add: first_bootstrap) (simp add: empty_storage_def)
  with first_bootstrap show ?thesis by simp
qed

theorem bootstrap_fallback_witness:
  "initializeUser mock_users fresh_hook stale_token_storage =
     (\<lparr>user = Some guest_user, isLoading = False, hook_error = None\<rparr>,
      \<lparr>items = [GUEST_ID \<mapsto> StoredString ''g-new'', USER_DATA \<mapsto> StoredUser guest_user],
       fault = None\<rparr>,
      [GetUsersGuest ''g-old'', PostUsers guest_request])"
  using bootstrap_fallback [of stale_token_storage "''g-old''" mock_users
      "ApiServiceError ''API Error: User not found'' 404 ''User not found''" fresh_hook]
  by (simp add: stale_token_storage_def mock_users_def fresh_hook_def guest_user_def
      GUEST_ID_def USER_DATA_def)


end
